theory Spec2Isabelle
  imports Main
begin

section \<open>Shared types of the frontend (app/Utils/types.ts)\<close>

text \<open>
  JavaScript strings are modelled as \<open>string\<close> (lists of code units below 256);
  numbers that the code only uses as non-negative integers (byte sizes, millisecond
  timestamps, counts) as \<open>nat\<close>.
  Record fields carry a prefix where two interfaces share a property name.
\<close>

datatype Role = USER | model

definition Role_value :: "Role \<Rightarrow> string" where
  "Role_value r = (case r of USER \<Rightarrow> ''user'' | model \<Rightarrow> ''model'')"

record Message =
  msg_id :: string
  msg_role :: Role
  msg_content :: string
  msg_timestamp :: nat

record Source =
  src_id :: string
  src_name :: string
  src_content :: string
  src_type :: string
  src_size :: nat
  src_uploadDate :: nat

text \<open>
  \<open>MessageHistoryItem.role\<close> has the literal type \<open>'user' | 'model'\<close>; it is kept as
  the string that goes on the wire, so that which strings occur is proved, not assumed.
\<close>

record MessageHistoryItem =
  role :: string
  parts :: "string list"

record ChatRequest =
  user_query :: string
  history :: "MessageHistoryItem list"

record ChatResponse =
  response :: string

record UploadResponse =
  message :: string
  filename :: "string option"

text \<open>The properties of a browser \<open>File\<close> that the code reads.\<close>

record File =
  file_name :: string
  file_type :: string
  file_size :: nat

section \<open>JSON values\<close>

text \<open>
  The values that \<open>response.json()\<close> yields and that \<open>JSON.stringify\<close> writes. An
  object is the list of its properties, each name occurring once.
\<close>

datatype json =
    JNull
  | JBool bool
  | JNumber int
  | JString string
  | JArray "json list"
  | JObject "(string \<times> json) list"

fun json_field :: "json \<Rightarrow> string \<Rightarrow> json option" where
  "json_field (JObject kvs) k = map_of kvs k"
| "json_field _ k = None"

text \<open>
  \<open>JSON.stringify(payload)\<close> of a \<open>ChatRequest\<close>, as the JSON value it denotes: the
  properties in the order the object literals of \<open>handleSendMessage\<close> list them.
\<close>

definition MessageHistoryItem_json :: "MessageHistoryItem \<Rightarrow> json" where
  "MessageHistoryItem_json h =
     JObject [(''role'', JString (role h)), (''parts'', JArray (map JString (parts h)))]"

definition ChatRequest_json :: "ChatRequest \<Rightarrow> json" where
  "ChatRequest_json p =
     JObject [(''user_query'', JString (user_query p)),
              (''history'', JArray (map MessageHistoryItem_json (history p)))]"

section \<open>The HTTP client (app/(services)/api.ts)\<close>

text \<open>
  A thrown JavaScript \<open>Error\<close> is the value \<open>Error msg\<close>; a function that may throw
  returns \<open>error + 'a\<close>. \<open>fetch\<close> is the environment: for a request it either rejects
  (network failure) or resolves to a response with \<open>ok\<close>, \<open>statusText\<close> and the outcome
  of \<open>response.json()\<close>. The three functions hand that outcome on, or drop it, without
  looking at it: the type \<open>'a\<close> of the parsed reply is left open, and is \<open>json\<close> for
  the reply as it arrives, or the interface that the TypeScript signature declares
  (\<open>ChatResponse\<close>, \<open>UploadResponse\<close>) where the caller reads it at that type. The
  environment answers a request by its content. Every call is appended to a log of the
  requests sent to the backend.
\<close>

datatype error = Error string

datatype http_method = POST | DELETE

datatype req_body = NoBody | JsonBody ChatRequest | FormData "(string \<times> File) list"

record http_request =
  url :: string
  req_method :: http_method
  headers :: "(string \<times> string) list"
  body :: req_body

datatype 'a fetch_outcome =
    Rejected error
  | Response (ok: bool) (statusText: string) (json_result: "error + 'a")

type_synonym 'a fetch = "http_request \<Rightarrow> 'a fetch_outcome"

definition BASE_URL :: "string option \<Rightarrow> string" where
  \<comment> \<open>\<open>process.env.NEXT_PUBLIC_BASE_URL || 'http://localhost:5000'\<close>\<close>
  "BASE_URL env =
     (case env of None \<Rightarrow> ''http://localhost:5000''
      | Some u \<Rightarrow> if u = [] then ''http://localhost:5000'' else u)"

definition fetch_call ::
  "'a fetch \<Rightarrow> http_request \<Rightarrow> http_request list \<Rightarrow> 'a fetch_outcome \<times> http_request list" where
  "fetch_call fetch req log = (fetch req, log @ [req])"

definition chat_request :: "string option \<Rightarrow> ChatRequest \<Rightarrow> http_request" where
  "chat_request env payload =
     \<lparr>url = BASE_URL env @ ''/chat'', req_method = POST,
      headers = [(''Content-Type'', ''application/json'')], body = JsonBody payload\<rparr>"

definition sendChatMessage ::
  "string option \<Rightarrow> 'a fetch \<Rightarrow> ChatRequest \<Rightarrow> http_request list
     \<Rightarrow> (error + 'a) \<times> http_request list" where
  "sendChatMessage env fetch payload log =
     (case fetch_call fetch (chat_request env payload) log of
        (Rejected e, log') \<Rightarrow> (Inl e, log')
      | (Response ok' st js, log') \<Rightarrow>
          (if \<not> ok' then Inl (Error (''Chat API error: '' @ st)) else js, log'))"

definition upload_request :: "string option \<Rightarrow> File \<Rightarrow> http_request" where
  "upload_request env file =
     \<lparr>url = BASE_URL env @ ''/upload'', req_method = POST, headers = [],
      body = FormData [(''file'', file)]\<rparr>"

definition uploadDocument ::
  "string option \<Rightarrow> 'a fetch \<Rightarrow> File \<Rightarrow> http_request list
     \<Rightarrow> (error + 'a) \<times> http_request list" where
  "uploadDocument env fetch file log =
     (case fetch_call fetch (upload_request env file) log of
        (Rejected e, log') \<Rightarrow> (Inl e, log')
      | (Response ok' st js, log') \<Rightarrow>
          (if \<not> ok' then Inl (Error (''Upload API error: '' @ st)) else js, log'))"

definition reset_request :: "string option \<Rightarrow> http_request" where
  "reset_request env =
     \<lparr>url = BASE_URL env @ ''/reset'', req_method = DELETE, headers = [], body = NoBody\<rparr>"

text \<open>\<open>resetSources\<close> never reads the response body, whatever its type.\<close>

definition resetSources ::
  "string option \<Rightarrow> 'a fetch \<Rightarrow> http_request list \<Rightarrow> (error + unit) \<times> http_request list" where
  "resetSources env fetch log =
     (case fetch_call fetch (reset_request env) log of
        (Rejected e, log') \<Rightarrow> (Inl e, log')
      | (Response ok' st js, log') \<Rightarrow>
          (if \<not> ok' then Inl (Error (''Reset API error: '' @ st)) else Inr (), log'))"

section \<open>The page component (app/page.tsx)\<close>

subsection \<open>JavaScript helpers\<close>

text \<open>
  \<open>String.prototype.trim\<close> on code units below 256: tab, line feed, vertical tab,
  form feed, carriage return, space and no-break space are white space.
\<close>

definition js_whitespace :: "char \<Rightarrow> bool" where
  "js_whitespace c = (of_char c \<in> {9, 10, 11, 12, 13, 32, 160 :: nat})"

definition trim :: "string \<Rightarrow> string" where
  "trim s = rev (dropWhile js_whitespace (rev (dropWhile js_whitespace s)))"

text \<open>\<open>Number.prototype.toString\<close> on a non-negative integer: its decimal digits.\<close>

definition digit :: "nat \<Rightarrow> char" where
  "digit d = ''0123456789'' ! d"

fun toString :: "nat \<Rightarrow> string" where
  "toString n =
     (if n < 10 then [digit n] else toString (n div 10) @ [digit (n mod 10)])"

declare toString.simps [simp del]

subsection \<open>State\<close>

text \<open>
  The React state of \<open>Home\<close> that the handlers touch, the browser's \<open>localStorage\<close>,
  the console, and the log of the requests sent to the backend. A stored value is the
  list that \<open>JSON.stringify\<close> was given.
\<close>

datatype status_type = StatusSuccess | StatusError

datatype stored = StoredMessages "Message list" | StoredSources "Source list"

record app =
  messages :: "Message list"
  sources :: "Source list"
  inputValue :: string
  isTyping :: bool
  isUploading :: bool
  uploadStatus :: "(status_type \<times> string) option"
  localStorage :: "string \<rightharpoonup> stored"
  console :: "(string \<times> error) list"
  requests :: "http_request list"

definition STORAGE_KEY_MESSAGES :: string where
  "STORAGE_KEY_MESSAGES = ''nanobook_messages''"

definition STORAGE_KEY_SOURCES :: string where
  "STORAGE_KEY_SOURCES = ''nanobook_sources''"

text \<open>
  The two persistence effects: after a render in which \<open>messages\<close> (or \<open>sources\<close>) has
  changed, React stores the list under its key. Handlers run only once the component
  is mounted, so the \<open>mounted\<close> guard of the effects is true here.
\<close>

definition persist_messages :: "app \<Rightarrow> app" where
  "persist_messages s =
     s\<lparr>localStorage := (localStorage s)(STORAGE_KEY_MESSAGES \<mapsto> StoredMessages (messages s))\<rparr>"

definition persist_sources :: "app \<Rightarrow> app" where
  "persist_sources s =
     s\<lparr>localStorage := (localStorage s)(STORAGE_KEY_SOURCES \<mapsto> StoredSources (sources s))\<rparr>"

subsection \<open>handleSendMessage\<close>

definition to_history_item :: "Message \<Rightarrow> MessageHistoryItem" where
  \<comment> \<open>the callback of \<open>messages.map\<close>\<close>
  "to_history_item msg =
     \<lparr>role = (if msg_role msg = USER then ''user'' else ''model''),
      parts = [msg_content msg]\<rparr>"

definition chatRequest :: "app \<Rightarrow> ChatRequest" where
  \<comment> \<open>the object literal \<open>chatRequest\<close>, built from the state of the invoking render\<close>
  "chatRequest s =
     \<lparr>user_query = inputValue s, history = map to_history_item (messages s)\<rparr>"

definition fallback_text :: string where
  "fallback_text =
     ''I encountered an error while processing your request. Please check your connection and try again.''"

text \<open>
  \<open>now k\<close> is the value of the \<open>k\<close>-th call of \<open>Date.now()\<close> that the handler makes.
  The handler is taken as one transaction: \<open>messages\<close> and \<open>inputValue\<close> are the values
  of the render in which it was invoked, and the functional update
  \<open>setMessages((prev) => [...prev, m])\<close> appends to the list set just before.
\<close>

definition handleSendMessage ::
  "string option \<Rightarrow> ChatResponse fetch \<Rightarrow> (nat \<Rightarrow> nat) \<Rightarrow> app \<Rightarrow> app" where
  "handleSendMessage env fetch now s =
     (if trim (inputValue s) = [] then s
      else
        let currentQuery = inputValue s;
            userMessage = \<lparr>msg_id = toString (now 0), msg_role = USER,
                           msg_content = currentQuery, msg_timestamp = now 1\<rparr>;
            newMessages = messages s @ [userMessage];
            s1 = s\<lparr>messages := newMessages, inputValue := [], isTyping := True\<rparr>;
            (res, log') = sendChatMessage env fetch (chatRequest s) (requests s1);
            s2 = s1\<lparr>requests := log'\<rparr>;
            s3 = (case res of
                    Inr resp \<Rightarrow>
                      s2\<lparr>messages := messages s2 @
                           [\<lparr>msg_id = toString (now 2 + 1), msg_role = model,
                             msg_content = response resp, msg_timestamp = now 3\<rparr>]\<rparr>
                  | Inl err \<Rightarrow>
                      s2\<lparr>console := console s2 @ [([], err)],
                         messages := messages s2 @
                           [\<lparr>msg_id = toString (now 2 + 1), msg_role = model,
                             msg_content = fallback_text, msg_timestamp = now 3\<rparr>]\<rparr>)
        in s3\<lparr>isTyping := False\<rparr>)"

subsection \<open>handleFileUpload\<close>

record upload_result =
  success :: bool
  name :: string

text \<open>
  \<open>Array.from(files).map(async (file) => ...)\<close> starts every callback in file order,
  and each callback calls \<open>fetch\<close> before its first \<open>await\<close>: the requests are sent
  in file order, before any response is looked at.
\<close>

fun submit_all ::
  "string option \<Rightarrow> UploadResponse fetch \<Rightarrow> File list \<Rightarrow> http_request list
     \<Rightarrow> (error + UploadResponse) list \<times> http_request list" where
  "submit_all env fetch [] log = ([], log)"
| "submit_all env fetch (file # files) log =
     (let (r, log1) = uploadDocument env fetch file log;
          (rs, log2) = submit_all env fetch files log1
      in (r # rs, log2))"

text \<open>
  What one callback does once its upload has settled. \<open>rid\<close> is the value of
  \<open>Math.random().toString(36).substr(2, 9)\<close> and \<open>date\<close> that of \<open>Date.now()\<close>.
\<close>

definition newSource :: "string \<Rightarrow> nat \<Rightarrow> File \<Rightarrow> UploadResponse \<Rightarrow> Source" where
  "newSource rid date file resp =
     \<lparr>src_id = rid, src_name = file_name file,
      src_content = (case filename resp of
                       None \<Rightarrow> file_name file
                     | Some f \<Rightarrow> if f = [] then file_name file else f),
      src_type = (if file_type file = [] then ''application/octet-stream''
                  else file_type file),
      src_size = file_size file, src_uploadDate = date\<rparr>"

definition settle_upload ::
  "string \<Rightarrow> nat \<Rightarrow> File \<Rightarrow> error + UploadResponse \<Rightarrow> app \<Rightarrow> app" where
  "settle_upload rid date file r s =
     (case r of
        Inr resp \<Rightarrow> s\<lparr>sources := sources s @ [newSource rid date file resp]\<rparr>
      | Inl err \<Rightarrow>
          s\<lparr>console := console s @ [(''Failed to upload '' @ file_name file @ '':'', err)]\<rparr>)"

definition upload_outcome :: "File \<Rightarrow> error + UploadResponse \<Rightarrow> upload_result" where
  \<comment> \<open>the value the callback returns\<close>
  "upload_outcome file r =
     (case r of Inr resp \<Rightarrow> \<lparr>success = True, name = file_name file\<rparr>
              | Inl err \<Rightarrow> \<lparr>success = False, name = file_name file\<rparr>)"

text \<open>
  The uploads settle in an order that the network decides: \<open>latency i\<close> is the time
  the \<open>i\<close>-th upload takes, and the callbacks resume in the order of these times.
\<close>

definition settle_all ::
  "(nat \<Rightarrow> string) \<Rightarrow> (nat \<Rightarrow> nat) \<Rightarrow> (nat \<Rightarrow> nat) \<Rightarrow> File list
     \<Rightarrow> (error + UploadResponse) list \<Rightarrow> app \<Rightarrow> app" where
  "settle_all rids dates latency files rs s =
     foldl (\<lambda>st i. settle_upload (rids i) (dates i) (files ! i) (rs ! i) st) s
       (sort_key latency [0 ..< length files])"

definition status_message :: "nat \<Rightarrow> nat \<Rightarrow> status_type \<times> string" where
  "status_message successCount failCount =
     (if successCount > 0 then
        (StatusSuccess,
         ''Successfully uploaded '' @ toString successCount @ '' file'' @
         (if successCount > 1 then ''s'' else []) @
         (if failCount > 0 then '', '' @ toString failCount @ '' failed'' else []))
      else
        (StatusError,
         ''Failed to upload '' @ toString failCount @ '' file'' @
         (if failCount > 1 then ''s'' else [])))"

text \<open>
  The handler returns nothing: the array \<open>results\<close> is local and is read for the two
  counts only. \<open>e.target.files\<close> may be null. The timer that clears the status five
  seconds later and the reset of the file input's value are not part of the handler's
  transaction on this state.
\<close>

definition handleFileUpload ::
  "string option \<Rightarrow> UploadResponse fetch \<Rightarrow> (nat \<Rightarrow> string) \<Rightarrow> (nat \<Rightarrow> nat) \<Rightarrow> (nat \<Rightarrow> nat)
     \<Rightarrow> File list option \<Rightarrow> app \<Rightarrow> app" where
  "handleFileUpload env fetch rids dates latency files_opt s =
     (case files_opt of
        None \<Rightarrow> s
      | Some files \<Rightarrow>
          let s1 = s\<lparr>isUploading := True, uploadStatus := None\<rparr>;
              (rs, log') = submit_all env fetch files (requests s1);
              s2 = settle_all rids dates latency files rs (s1\<lparr>requests := log'\<rparr>);
              results = map2 upload_outcome files rs;
              successCount = length (filter (\<lambda>r. success r) results);
              failCount = length (filter (\<lambda>r. \<not> success r) results)
          in s2\<lparr>uploadStatus := Some (status_message successCount failCount),
                isUploading := False\<rparr>)"

subsection \<open>handleRemoveSource and handleReset\<close>

definition handleRemoveSource :: "string \<Rightarrow> app \<Rightarrow> app" where
  "handleRemoveSource id' s = s\<lparr>sources := filter (\<lambda>x. src_id x \<noteq> id') (sources s)\<rparr>"

text \<open>
  \<open>confirmed\<close> is the answer of \<open>window.confirm\<close>. The \<open>try\<close> has no \<open>catch\<close>: an
  error of \<open>resetSources\<close> leaves the handler after the \<open>finally\<close> block has run, and is
  returned beside the state.
\<close>

definition handleReset ::
  "string option \<Rightarrow> 'a fetch \<Rightarrow> bool \<Rightarrow> app \<Rightarrow> error option \<times> app" where
  "handleReset env fetch confirmed s =
     (if confirmed then
        let (res, log') = resetSources env fetch (requests s);
            s1 = s\<lparr>requests := log'\<rparr>;
            s2 = s1\<lparr>messages := [], sources := [],
                    localStorage := (localStorage s1)(STORAGE_KEY_MESSAGES := None,
                                                      STORAGE_KEY_SOURCES := None)\<rparr>
        in (case res of Inl err \<Rightarrow> (Some err, s2) | Inr u \<Rightarrow> (None, s2))
      else (None, s))"

section \<open>Result shapes of the documented interface\<close>

text \<open>
  The results that the interface description gives for Query and Ingest, as predicates
  on JSON values, to be compared with the replies that the client hands on:
  \<open>{answer: string, sources: ordered list of {document_name, chunk_excerpt}}\<close> and
  \<open>{chunks_indexed: int, failed_chunk_indices: [int]}\<close>.
\<close>

definition is_source_entry :: "json \<Rightarrow> bool" where
  "is_source_entry j =
     (case json_field j ''document_name'' of
        Some (JString d) \<Rightarrow>
          (case json_field j ''chunk_excerpt'' of Some (JString c) \<Rightarrow> True | _ \<Rightarrow> False)
      | _ \<Rightarrow> False)"

definition Query_result_shape :: "json \<Rightarrow> bool" where
  "Query_result_shape j =
     (case json_field j ''answer'' of
        Some (JString a) \<Rightarrow>
          (case json_field j ''sources'' of
             Some (JArray xs) \<Rightarrow> list_all is_source_entry xs
           | _ \<Rightarrow> False)
      | _ \<Rightarrow> False)"

definition is_number :: "json \<Rightarrow> bool" where
  "is_number j = (case j of JNumber n \<Rightarrow> True | _ \<Rightarrow> False)"

definition Ingest_result_shape :: "json \<Rightarrow> bool" where
  "Ingest_result_shape j =
     (case json_field j ''chunks_indexed'' of
        Some (JNumber n) \<Rightarrow>
          (case json_field j ''failed_chunk_indices'' of
             Some (JArray xs) \<Rightarrow> list_all is_number xs
           | _ \<Rightarrow> False)
      | _ \<Rightarrow> False)"


section \<open>The Chunker\<close>

text \<open>
  The chunk size and the overlap that the READMEs give for the text splitter, and the
  fallback of the splitter when the window holds no boundary: a hard cut at its end.
\<close>

definition default_chunk_size :: nat where
  "default_chunk_size = 500"

definition default_chunk_overlap :: nat where
  "default_chunk_overlap = 100"

definition hard_cut :: "string \<Rightarrow> nat" where
  "hard_cut window = length window"

text \<open>
  Modelled from the spec: a Chunk, a contiguous slice of the text of a document with
  its parent document id, its sequence index, its raw text and its character offset
  range in the source (from \<open>chunk_start\<close>, up to but excluding \<open>chunk_end\<close>). The
  document id with the index is the stable id of the chunk.
\<close>

record Chunk =
  chunk_document :: string
  chunk_index :: nat
  chunk_text :: string
  chunk_start :: nat
  chunk_end :: nat

text \<open>
  Modelled from the spec: the Chunker of the ingestion path. The backend's
  \<open>src/ingest.py\<close> and \<open>src/app.py\<close>, which set up and call the text splitter, are
  not among the sources. The description followed here:
  \<^item> the empty text yields no chunk, and a text no longer than the chunk size yields
    exactly one chunk;
  \<^item> a chunk is at most \<open>size'\<close> characters long; the splitter prefers to break on a
    paragraph, sentence or word boundary before falling back to a hard cut: \<open>pref\<close>,
    given the window of the next \<open>size'\<close> characters, proposes where to break, and the
    proposal is kept inside the window and beyond the overlap;
  \<^item> consecutive chunks overlap by \<open>overlap\<close> characters, except at the boundary of the
    document, where a chunk may share less: the chunk that ends the document starts
    where its predecessor ended. This is what the scenario of a 1200-character
    document at 500/100 asks for, with its chunks of 500, 500 and 300 characters.

  \<open>k\<close> is the index of the next chunk, \<open>start\<close> its offset in the document and \<open>rest\<close>
  the text of the document from that offset on.
\<close>

function chunks_from ::
  "nat \<Rightarrow> nat \<Rightarrow> (string \<Rightarrow> nat) \<Rightarrow> string \<Rightarrow> nat \<Rightarrow> nat \<Rightarrow> string \<Rightarrow> Chunk list" where
  "chunks_from size' overlap pref did k start rest =
     (if rest = [] then []
      else if length rest \<le> size' then
        [\<lparr>chunk_document = did, chunk_index = k, chunk_text = rest,
          chunk_start = start, chunk_end = start + length rest\<rparr>]
      else
        let c = max (overlap + 1) (min size' (pref (take size' rest)));
            shared = (if length rest - (c - overlap) \<le> size' then 0 else overlap)
        in \<lparr>chunk_document = did, chunk_index = k, chunk_text = take c rest,
            chunk_start = start, chunk_end = start + length (take c rest)\<rparr> #
           chunks_from size' overlap pref did (k + 1) (start + c - shared)
             (drop (c - shared) rest))"
  by pat_completeness auto
termination
  by (relation "measure (\<lambda>(size', overlap, pref, did, k, start, rest). length rest)") auto

declare chunks_from.simps [simp del]

definition chunker :: "nat \<Rightarrow> nat \<Rightarrow> (string \<Rightarrow> nat) \<Rightarrow> string \<Rightarrow> string \<Rightarrow> Chunk list" where
  "chunker size' overlap pref did doc = chunks_from size' overlap pref did 0 0 doc"

text \<open>
  Modelled from the spec: reassembling the chunk texts "minus overlaps". The overlap of
  a chunk is read from the offset ranges: the characters of the chunk that lie before
  \<open>covered\<close>, the end of its predecessor, are dropped.
\<close>

fun reassemble_from :: "nat \<Rightarrow> Chunk list \<Rightarrow> string" where
  "reassemble_from covered [] = []"
| "reassemble_from covered (c # cs) =
     drop (covered - chunk_start c) (chunk_text c) @ reassemble_from (chunk_end c) cs"

definition reassemble :: "Chunk list \<Rightarrow> string" where
  "reassemble cs = reassemble_from 0 cs"

text \<open>
  Modelled from the spec: the overlap invariant. Two consecutive chunks share exactly
  \<open>overlap\<close> characters; the chunk that ends the document may share less.
\<close>

fun overlaps_ok :: "nat \<Rightarrow> Chunk list \<Rightarrow> bool" where
  "overlaps_ok overlap (c # d # e # cs) =
     (chunk_start d + overlap = chunk_end c \<and> overlaps_ok overlap (d # e # cs))"
| "overlaps_ok overlap [c, d] =
     (chunk_start d \<le> chunk_end c \<and> chunk_end c \<le> chunk_start d + overlap)"
| "overlaps_ok overlap cs = True"

section \<open>Example inputs\<close>

definition example_clock :: "nat \<Rightarrow> nat" where
  "example_clock k = 1000 + 5 * k"

definition example_state :: app where
  "example_state =
     \<lparr>messages =
        [\<lparr>msg_id = ''1'', msg_role = USER, msg_content = ''Previous question'',
          msg_timestamp = 1\<rparr>,
         \<lparr>msg_id = ''2'', msg_role = model, msg_content = ''Previous answer'',
          msg_timestamp = 2\<rparr>],
      sources =
        [\<lparr>src_id = ''a1'', src_name = ''one.pdf'', src_content = ''one.pdf'',
          src_type = ''application/pdf'', src_size = 10, src_uploadDate = 3\<rparr>,
         \<lparr>src_id = ''b2'', src_name = ''two.txt'', src_content = ''two.txt'',
          src_type = ''text/plain'', src_size = 20, src_uploadDate = 4\<rparr>],
      inputValue = ''What are the key findings?'',
      isTyping = False, isUploading = False, uploadStatus = None,
      localStorage =
        [''nanobook_messages'' \<mapsto> StoredMessages [], ''nanobook_sources'' \<mapsto> StoredSources []],
      console = [], requests = []\<rparr>"

text \<open>
  Replies of the chat endpoint, as JSON: the reply that the frontend's README gives, a
  reply of the shape that the interface description gives, and a backend that sends
  the request fields back.
\<close>

definition documented_chat_reply :: json where
  "documented_chat_reply =
     JObject [(''response'', JString ''Based on the documents, the key findings are...'')]"

definition chat_fetch_documented :: "json fetch" where
  "chat_fetch_documented req = Response True ''OK'' (Inr documented_chat_reply)"

definition reply_with_sources :: json where
  "reply_with_sources =
     JObject [(''answer'', JString ''The key findings are...''),
              (''sources'', JArray [JObject [(''document_name'', JString ''one.pdf''),
                                             (''chunk_excerpt'', JString ''Key findings: ...'')]])]"

definition chat_fetch_with_sources :: "json fetch" where
  "chat_fetch_with_sources req = Response True ''OK'' (Inr reply_with_sources)"

definition chat_fetch_echo :: "json fetch" where
  "chat_fetch_echo req =
     (case body req of
        JsonBody p \<Rightarrow> Response True ''OK'' (Inr (ChatRequest_json p))
      | _ \<Rightarrow> Response False ''Bad Request'' (Inl (Error ''Unexpected end of JSON input'')))"

text \<open>The same replies at the type that the signature of \<open>sendChatMessage\<close> declares.\<close>

definition example_answer :: ChatResponse where
  "example_answer = \<lparr>response = ''Based on the documents, the key findings are...''\<rparr>"

definition chat_fetch_ok :: "ChatResponse fetch" where
  "chat_fetch_ok req = Response True ''OK'' (Inr example_answer)"

definition chat_fetch_500 :: "ChatResponse fetch" where
  "chat_fetch_500 req =
     Response False ''Internal Server Error'' (Inl (Error ''Unexpected end of JSON input''))"

definition example_files :: "File list" where
  "example_files =
     [\<lparr>file_name = ''notes.txt'', file_type = ''text/plain'', file_size = 120\<rparr>,
      \<lparr>file_name = ''broken.pdf'', file_type = ''application/pdf'', file_size = 7\<rparr>,
      \<lparr>file_name = ''paper.pdf'', file_type = [], file_size = 4096\<rparr>]"

text \<open>
  The reply of the upload endpoint that the backend's README gives, as JSON, and a
  reply of the shape that the interface description gives.
\<close>

definition documented_upload_reply :: json where
  "documented_upload_reply =
     JObject [(''message'',
               JString (''File '' @ [CHR 0x27] @ ''document.pdf'' @ [CHR 0x27] @
                        '' uploaded and ingested successfully.'')),
              (''chunks_created'', JNumber 42),
              (''file_path'', JString ''/path/to/file''),
              (''statusText'', JString ''ingestion_complete'')]"

definition upload_fetch_documented :: "json fetch" where
  "upload_fetch_documented req = Response True ''OK'' (Inr documented_upload_reply)"

definition reply_with_chunk_counts :: json where
  "reply_with_chunk_counts =
     JObject [(''chunks_indexed'', JNumber 41), (''failed_chunk_indices'', JArray [JNumber 7])]"

definition upload_fetch_with_chunk_counts :: "json fetch" where
  "upload_fetch_with_chunk_counts req = Response True ''OK'' (Inr reply_with_chunk_counts)"

text \<open>
  At the declared type: a backend that cannot process \<open>broken.pdf\<close> and accepts every
  other file, with the reply that the frontend's README gives.
\<close>

definition example_upload_response :: UploadResponse where
  "example_upload_response =
     \<lparr>message = ''File uploaded successfully'', filename = Some ''document.pdf''\<rparr>"

definition upload_fetch_example :: "UploadResponse fetch" where
  "upload_fetch_example req =
     (if body req = FormData [(''file'', example_files ! 1)]
      then Response False ''Unprocessable Entity'' (Inl (Error ''Unexpected end of JSON input''))
      else Response True ''OK'' (Inr example_upload_response))"

definition example_rids :: "nat \<Rightarrow> string" where
  "example_rids i = ''k3j9x'' @ toString i"

text \<open>Uploads that settle in the reverse of the order in which they were started.\<close>

definition example_latency :: "nat \<Rightarrow> nat" where
  "example_latency i = 10 - i"

text \<open>Two backends that report different numbers of cleared records, and one that fails.\<close>

definition reset_fetch_3 :: "json fetch" where
  "reset_fetch_3 req = Response True ''OK'' (Inr (JObject [(''records_cleared'', JNumber 3)]))"

definition reset_fetch_5 :: "json fetch" where
  "reset_fetch_5 req = Response True ''OK'' (Inr (JObject [(''records_cleared'', JNumber 5)]))"

definition reset_fetch_500 :: "json fetch" where
  "reset_fetch_500 req =
     Response False ''Internal Server Error'' (Inl (Error ''Unexpected end of JSON input''))"

section \<open>Facts about the HTTP client\<close>

lemma sendChatMessage_eq:
  "sendChatMessage env fetch payload log =
     (case fetch (chat_request env payload) of
        Rejected e \<Rightarrow> Inl e
      | Response ok' st js \<Rightarrow> if ok' then js else Inl (Error (''Chat API error: '' @ st)),
      log @ [chat_request env payload])"
  by (simp add: sendChatMessage_def fetch_call_def split: fetch_outcome.splits)

lemma uploadDocument_eq:
  "uploadDocument env fetch file log =
     (case fetch (upload_request env file) of
        Rejected e \<Rightarrow> Inl e
      | Response ok' st js \<Rightarrow> if ok' then js else Inl (Error (''Upload API error: '' @ st)),
      log @ [upload_request env file])"
  by (simp add: uploadDocument_def fetch_call_def split: fetch_outcome.splits)

lemma resetSources_eq:
  "resetSources env fetch log =
     (case fetch (reset_request env) of
        Rejected e \<Rightarrow> Inl e
      | Response ok' st js \<Rightarrow> if ok' then Inr () else Inl (Error (''Reset API error: '' @ st)),
      log @ [reset_request env])"
  by (simp add: resetSources_def fetch_call_def split: fetch_outcome.splits)

section \<open>Facts about \<open>handleSendMessage\<close>\<close>

lemma handleSendMessage_blank:
  "trim (inputValue s) = [] \<Longrightarrow> handleSendMessage env fetch now s = s"
  by (simp add: handleSendMessage_def)

lemma handleSendMessage_requests:
  "trim (inputValue s) \<noteq> [] \<Longrightarrow>
   requests (handleSendMessage env fetch now s) =
     requests s @ [chat_request env (chatRequest s)]"
  by (simp add: handleSendMessage_def sendChatMessage_eq Let_def split: sum.splits)

lemma handleSendMessage_messages:
  "trim (inputValue s) \<noteq> [] \<Longrightarrow>
   messages (handleSendMessage env fetch now s) =
     messages s @
     [\<lparr>msg_id = toString (now 0), msg_role = USER, msg_content = inputValue s,
       msg_timestamp = now 1\<rparr>,
      \<lparr>msg_id = toString (now 2 + 1), msg_role = model,
       msg_content = (case fst (sendChatMessage env fetch (chatRequest s) log) of
                        Inr resp \<Rightarrow> response resp | Inl err \<Rightarrow> fallback_text),
       msg_timestamp = now 3\<rparr>]"
  by (simp add: handleSendMessage_def sendChatMessage_eq Let_def split: sum.splits)

lemma handleSendMessage_console:
  "trim (inputValue s) \<noteq> [] \<Longrightarrow>
   console (handleSendMessage env fetch now s) =
     console s @
     (case fst (sendChatMessage env fetch (chatRequest s) log) of
        Inr resp \<Rightarrow> [] | Inl err \<Rightarrow> [([], err)])"
  by (simp add: handleSendMessage_def sendChatMessage_eq Let_def split: sum.splits)

lemma to_history_item_role: "role (to_history_item msg) = Role_value (msg_role msg)"
  by (cases "msg_role msg") (simp_all add: to_history_item_def Role_value_def)

lemma example_state_not_blank: "trim (inputValue example_state) \<noteq> []"
  by (simp add: example_state_def trim_def js_whitespace_def)

text \<open>
  C4. When the chat call comes back with a response that is not ok, the chat client
  raises an error built from the status text and returns no answer; the text the user
  then sees is the fixed fallback message that the calling handler writes itself, and
  the error goes to the console.
\<close>

theorem chat_failure_raises_error:
  assumes "fetch (chat_request env payload) = Response False st js"
  shows "fst (sendChatMessage env fetch payload log) = Inl (Error (''Chat API error: '' @ st))
     \<and> (\<forall>r. fst (sendChatMessage env fetch payload log) \<noteq> Inr r)
     \<and> (trim (inputValue s) \<noteq> [] \<and> payload = chatRequest s \<longrightarrow>
          last (messages (handleSendMessage env fetch now s)) =
            \<lparr>msg_id = toString (now 2 + 1), msg_role = model,
             msg_content = fallback_text, msg_timestamp = now 3\<rparr>
          \<and> console (handleSendMessage env fetch now s) =
              console s @ [([], Error (''Chat API error: '' @ st))])"
proof -
  have res: "fst (sendChatMessage env fetch payload l) = Inl (Error (''Chat API error: '' @ st))"
    for l using assms by (simp add: sendChatMessage_eq)
  show ?thesis
    using res handleSendMessage_messages [of s env fetch now log]
      handleSendMessage_console [of s env fetch now log]
    by auto
qed

theorem chat_failure_raises_error_witness:
  "chat_fetch_500 (chat_request None (chatRequest example_state)) =
     Response False ''Internal Server Error'' (Inl (Error ''Unexpected end of JSON input''))
   \<and> trim (inputValue example_state) \<noteq> []
   \<and> fst (sendChatMessage None chat_fetch_500 (chatRequest example_state) []) =
       Inl (Error ''Chat API error: Internal Server Error'')
   \<and> last (messages (handleSendMessage None chat_fetch_500 example_clock example_state)) =
       \<lparr>msg_id = ''1011'', msg_role = model, msg_content = fallback_text,
        msg_timestamp = 1015\<rparr>
   \<and> console (handleSendMessage None chat_fetch_500 example_clock example_state) =
       [([], Error ''Chat API error: Internal Server Error'')]"
proof -
  have h: "chat_fetch_500 (chat_request None (chatRequest example_state)) =
     Response False ''Internal Server Error'' (Inl (Error ''Unexpected end of JSON input''))"
    by (simp add: chat_fetch_500_def)
  have c: "console example_state = []" by (simp add: example_state_def)
  have t: "toString (example_clock 2 + 1) = ''1011''" "example_clock 3 = 1015"
    by (simp_all add: example_clock_def toString.simps digit_def)
  show ?thesis
    using chat_failure_raises_error
        [where fetch = chat_fetch_500 and env = None and payload = "chatRequest example_state"
           and log = "[]" and s = example_state and now = example_clock, OF h]
      example_state_not_blank h c t
    by simp
qed

text \<open>
  C9. Every chat request that is sent carries as history exactly the messages shown
  before the current query, in their order, each with its role mapped (\<open>USER\<close> to
  \<open>user\<close>, anything else to \<open>model\<close>) and its content wrapped as a one-element
  \<open>parts\<close> list. The current query travels in \<open>user_query\<close> only: the history has one
  entry per earlier message, while the conversation shown has gained the new user
  message.
\<close>

theorem chat_request_history_is_previous_messages:
  assumes "trim (inputValue s) \<noteq> []"
  shows "requests (handleSendMessage env fetch now s) =
           requests s @
           [\<lparr>url = BASE_URL env @ ''/chat'', req_method = POST,
             headers = [(''Content-Type'', ''application/json'')],
             body = JsonBody
               \<lparr>user_query = inputValue s,
                history =
                  map (\<lambda>msg. \<lparr>role = (if msg_role msg = USER then ''user'' else ''model''),
                              parts = [msg_content msg]\<rparr>)
                    (messages s)\<rparr>\<rparr>]
     \<and> length (history (chatRequest s)) = length (messages s)
     \<and> take (length (messages s) + 1) (messages (handleSendMessage env fetch now s)) =
         messages s @
         [\<lparr>msg_id = toString (now 0), msg_role = USER, msg_content = inputValue s,
           msg_timestamp = now 1\<rparr>]"
proof -
  have "chatRequest s =
          \<lparr>user_query = inputValue s,
           history =
             map (\<lambda>msg. \<lparr>role = (if msg_role msg = USER then ''user'' else ''model''),
                         parts = [msg_content msg]\<rparr>)
               (messages s)\<rparr>"
    unfolding chatRequest_def to_history_item_def ..
  then have "chat_request env (chatRequest s) =
           \<lparr>url = BASE_URL env @ ''/chat'', req_method = POST,
            headers = [(''Content-Type'', ''application/json'')],
            body = JsonBody
              \<lparr>user_query = inputValue s,
               history =
                 map (\<lambda>msg. \<lparr>role = (if msg_role msg = USER then ''user'' else ''model''),
                             parts = [msg_content msg]\<rparr>)
                   (messages s)\<rparr>\<rparr>"
    by (simp add: chat_request_def)
  moreover have "length (history (chatRequest s)) = length (messages s)"
    by (simp add: chatRequest_def)
  ultimately show ?thesis
    using assms handleSendMessage_requests [of s env fetch now]
      handleSendMessage_messages [of s env fetch now "[]"]
    by simp
qed

theorem chat_request_history_is_previous_messages_witness:
  "trim (inputValue example_state) \<noteq> []
   \<and> requests (handleSendMessage None chat_fetch_ok example_clock example_state) =
       [\<lparr>url = ''http://localhost:5000/chat'', req_method = POST,
         headers = [(''Content-Type'', ''application/json'')],
         body = JsonBody
           \<lparr>user_query = ''What are the key findings?'',
            history = [\<lparr>role = ''user'', parts = [''Previous question'']\<rparr>,
                       \<lparr>role = ''model'', parts = [''Previous answer'']\<rparr>]\<rparr>\<rparr>]
   \<and> length (history (chatRequest example_state)) = 2
   \<and> take 3 (messages (handleSendMessage None chat_fetch_ok example_clock example_state)) =
       [\<lparr>msg_id = ''1'', msg_role = USER, msg_content = ''Previous question'',
         msg_timestamp = 1\<rparr>,
        \<lparr>msg_id = ''2'', msg_role = model, msg_content = ''Previous answer'',
         msg_timestamp = 2\<rparr>,
        \<lparr>msg_id = ''1000'', msg_role = USER, msg_content = ''What are the key findings?'',
         msg_timestamp = 1005\<rparr>]"
proof -
  have t: "toString (example_clock 0) = ''1000''" "example_clock (Suc 0) = 1005"
    by (simp_all add: example_clock_def toString.simps digit_def)
  have m: "messages example_state =
       [\<lparr>msg_id = ''1'', msg_role = USER, msg_content = ''Previous question'',
         msg_timestamp = 1\<rparr>,
        \<lparr>msg_id = ''2'', msg_role = model, msg_content = ''Previous answer'',
         msg_timestamp = 2\<rparr>]"
     "inputValue example_state = ''What are the key findings?''"
     "requests example_state = []"
    by (simp_all add: example_state_def)
  show ?thesis
    using chat_request_history_is_previous_messages
        [OF example_state_not_blank, of None chat_fetch_ok example_clock]
      example_state_not_blank
    by (simp add: t m BASE_URL_def numeral_3_eq_3)
qed

text \<open>
  C2. For every query that is sent, the history handed to the Query operation is a
  list, in the order of the conversation, whose every element has the role \<open>user\<close> or
  \<open>model\<close> and carries the content of its turn as a single text string.
\<close>

theorem history_items_user_or_model_single_text:
  assumes "trim (inputValue s) \<noteq> []"
  shows "requests (handleSendMessage env fetch now s) =
           requests s @ [chat_request env (chatRequest s)]
     \<and> body (chat_request env (chatRequest s)) = JsonBody (chatRequest s)
     \<and> (\<forall>h \<in> set (history (chatRequest s)).
           (role h = ''user'' \<or> role h = ''model'') \<and> length (parts h) = 1)
     \<and> map parts (history (chatRequest s)) = map (\<lambda>m. [msg_content m]) (messages s)"
  using assms handleSendMessage_requests [of s env fetch now]
  by (auto simp: chatRequest_def to_history_item_def chat_request_def)

theorem history_items_user_or_model_single_text_witness:
  "trim (inputValue example_state) \<noteq> []
   \<and> requests (handleSendMessage None chat_fetch_ok example_clock example_state) =
       [chat_request None (chatRequest example_state)]
   \<and> list_all (\<lambda>h. (role h = ''user'' \<or> role h = ''model'') \<and> length (parts h) = 1)
       (history (chatRequest example_state))
   \<and> map parts (history (chatRequest example_state)) =
       [[''Previous question''], [''Previous answer'']]"
proof -
  have m: "map (\<lambda>m. [msg_content m]) (messages example_state) =
             [[''Previous question''], [''Previous answer'']]"
     "requests example_state = []"
    by (simp_all add: example_state_def)
  show ?thesis
    using history_items_user_or_model_single_text
        [OF example_state_not_blank, of None chat_fetch_ok example_clock]
      example_state_not_blank
    by (simp add: m list_all_iff)
qed


section \<open>What the client returns\<close>

text \<open>
  C1, as stated: the Query operation returns an answer string together with an ordered
  list of sources, each with a document name and a chunk excerpt. The chat client does
  not see to that: for the reply that the frontend documents, an object with the single
  property \<open>response\<close>, its result is that object, without sources.
\<close>

theorem query_reply_without_sources:
  "fst (sendChatMessage None chat_fetch_documented (chatRequest example_state) []) =
     Inr documented_chat_reply
   \<and> json_field documented_chat_reply ''answer'' = None
   \<and> json_field documented_chat_reply ''sources'' = None
   \<and> \<not> Query_result_shape documented_chat_reply"
  by (simp add: sendChatMessage_eq chat_fetch_documented_def documented_chat_reply_def
      Query_result_shape_def)

text \<open>
  C1, amended. The Query operation, invoked per chat request, returns on an ok response
  exactly the reply that the backend sent, unchanged and unchecked, and returns no
  result otherwise. Its result contains an answer string and an ordered list of sources
  when, and only when, the backend's reply does; it is an echo of the request fields
  when, and only when, the backend's reply is one.
\<close>

theorem query_returns_backend_reply_unchanged:
  "(fst (sendChatMessage env fetch payload log) = Inr reply) =
     (\<exists>st. fetch (chat_request env payload) = Response True st (Inr reply))"
  by (auto simp: sendChatMessage_eq split: fetch_outcome.splits if_splits)

theorem query_returns_backend_reply_unchanged_witness:
  "fst (sendChatMessage None chat_fetch_with_sources (chatRequest example_state) []) =
     Inr reply_with_sources
   \<and> Query_result_shape reply_with_sources
   \<and> fst (sendChatMessage None chat_fetch_echo (chatRequest example_state) []) =
       Inr (ChatRequest_json (chatRequest example_state))
   \<and> fst (sendChatMessage None chat_fetch_500 (chatRequest example_state) []) \<noteq>
       Inr example_answer"
proof -
  have a: "\<exists>st. chat_fetch_with_sources (chat_request None (chatRequest example_state)) =
             Response True st (Inr reply_with_sources)"
    by (simp add: chat_fetch_with_sources_def)
  have b: "\<exists>st. chat_fetch_echo (chat_request None (chatRequest example_state)) =
             Response True st (Inr (ChatRequest_json (chatRequest example_state)))"
    by (simp add: chat_fetch_echo_def chat_request_def)
  have c: "\<not> (\<exists>st. chat_fetch_500 (chat_request None (chatRequest example_state)) =
             Response True st (Inr example_answer))"
    by (simp add: chat_fetch_500_def)
  have d: "Query_result_shape reply_with_sources"
    by (simp add: Query_result_shape_def reply_with_sources_def is_source_entry_def)
  show ?thesis
    using a b c d
      query_returns_backend_reply_unchanged
        [of None chat_fetch_with_sources "chatRequest example_state" "[]" reply_with_sources]
      query_returns_backend_reply_unchanged
        [of None chat_fetch_echo "chatRequest example_state" "[]"
            "ChatRequest_json (chatRequest example_state)"]
      query_returns_backend_reply_unchanged
        [of None chat_fetch_500 "chatRequest example_state" "[]" example_answer]
    by simp
qed

text \<open>
  C5, as stated: the upload operation returns, for every document uploaded
  successfully, the count of chunks indexed and the list of failed chunk indices. The
  client does not see to that: for the reply that the backend documents, its result is
  that reply, with a count under the name \<open>chunks_created\<close> and without a list of
  failed chunk indices.
\<close>

theorem upload_reply_without_failed_indices:
  "fst (uploadDocument None upload_fetch_documented (example_files ! 0) []) =
     Inr documented_upload_reply
   \<and> json_field documented_upload_reply ''chunks_created'' = Some (JNumber 42)
   \<and> json_field documented_upload_reply ''chunks_indexed'' = None
   \<and> json_field documented_upload_reply ''failed_chunk_indices'' = None
   \<and> \<not> Ingest_result_shape documented_upload_reply"
  by (simp add: uploadDocument_eq upload_fetch_documented_def documented_upload_reply_def
      Ingest_result_shape_def)

text \<open>
  C5, amended. The upload operation returns, for every document uploaded successfully
  (an ok response), exactly the reply that the backend sent, unchanged and unchecked,
  and returns no result otherwise. A count of chunks indexed and a list of failed chunk
  indices are in its result when, and only when, the backend's reply carries them.
\<close>

theorem upload_returns_backend_reply_unchanged:
  "(fst (uploadDocument env fetch file log) = Inr reply) =
     (\<exists>st. fetch (upload_request env file) = Response True st (Inr reply))"
  by (auto simp: uploadDocument_eq split: fetch_outcome.splits if_splits)

theorem upload_returns_backend_reply_unchanged_witness:
  "fst (uploadDocument None upload_fetch_with_chunk_counts (example_files ! 0) []) =
     Inr reply_with_chunk_counts
   \<and> Ingest_result_shape reply_with_chunk_counts
   \<and> fst (uploadDocument None upload_fetch_example (example_files ! 1) []) \<noteq>
       Inr example_upload_response"
proof -
  have a: "\<exists>st. upload_fetch_with_chunk_counts (upload_request None (example_files ! 0)) =
             Response True st (Inr reply_with_chunk_counts)"
    by (simp add: upload_fetch_with_chunk_counts_def)
  have c: "\<not> (\<exists>st. upload_fetch_example (upload_request None (example_files ! 1)) =
             Response True st (Inr example_upload_response))"
    by (simp add: upload_fetch_example_def upload_request_def)
  have d: "Ingest_result_shape reply_with_chunk_counts"
    by (simp add: Ingest_result_shape_def reply_with_chunk_counts_def is_number_def)
  show ?thesis
    using a c d
      upload_returns_backend_reply_unchanged
        [of None upload_fetch_with_chunk_counts "example_files ! 0" "[]"
            reply_with_chunk_counts]
      upload_returns_backend_reply_unchanged
        [of None upload_fetch_example "example_files ! 1" "[]" example_upload_response]
    by simp
qed

section \<open>Facts about \<open>handleFileUpload\<close>\<close>

lemma submit_all_eq:
  "submit_all env fetch files log =
     (map (\<lambda>f. fst (uploadDocument env fetch f [])) files,
      log @ map (upload_request env) files)"
  by (induction files arbitrary: log) (simp_all add: uploadDocument_eq)

lemma settle_upload_requests: "requests (settle_upload rid date file r s) = requests s"
  by (simp add: settle_upload_def split: sum.splits)

lemma settle_fold_requests:
  "requests (foldl (\<lambda>st i. settle_upload (rids i) (dates i) (files ! i) (rs ! i) st) s is) =
     requests s"
  by (induction "is" arbitrary: s) (simp_all add: settle_upload_requests)

lemma settle_all_requests:
  "requests (settle_all rids dates latency files rs s) = requests s"
  by (simp add: settle_all_def settle_fold_requests)

lemma settle_fold_sources:
  "sources (foldl (\<lambda>st i. settle_upload (rids i) (dates i) (files ! i) (rs ! i) st) s is) =
     sources s @
     concat (map (\<lambda>i. case rs ! i of
                          Inr resp \<Rightarrow> [newSource (rids i) (dates i) (files ! i) resp]
                        | Inl err \<Rightarrow> []) is)"
  by (induction "is" arbitrary: s) (simp_all add: settle_upload_def split: sum.splits)

lemma settle_fold_console:
  "console (foldl (\<lambda>st i. settle_upload (rids i) (dates i) (files ! i) (rs ! i) st) s is) =
     console s @
     concat (map (\<lambda>i. case rs ! i of
                          Inr resp \<Rightarrow> []
                        | Inl err \<Rightarrow> [(''Failed to upload '' @ file_name (files ! i) @ '':'', err)])
                 is)"
  by (induction "is" arbitrary: s) (simp_all add: settle_upload_def split: sum.splits)

lemma zip_with_image: "zip xs (map g xs) = map (\<lambda>x. (x, g x)) xs"
  by (induction xs) simp_all

lemma upload_outcome_eq:
  "upload_outcome f r = \<lparr>success = \<not> isl r, name = file_name f\<rparr>"
  by (cases r) (simp_all add: upload_outcome_def)

lemma handleFileUpload_null:
  "handleFileUpload env fetch rids dates latency None s = s"
  by (simp add: handleFileUpload_def)

lemma handleFileUpload_requests:
  "requests (handleFileUpload env fetch rids dates latency (Some files) s) =
     requests s @ map (upload_request env) files"
  by (simp add: handleFileUpload_def submit_all_eq Let_def settle_all_requests)

lemma settle_all_under_order:
  assumes "\<And>i. i < length files \<Longrightarrow> f i = g i"
  shows "map f (sort_key latency [0 ..< length files]) =
         map g (sort_key latency [0 ..< length files])"
  using assms by (intro map_cong) auto

lemma handleFileUpload_sources:
  "sources (handleFileUpload env fetch rids dates latency (Some files) s) =
     sources s @
     concat (map (\<lambda>i. case fst (uploadDocument env fetch (files ! i) []) of
                          Inr resp \<Rightarrow> [newSource (rids i) (dates i) (files ! i) resp]
                        | Inl err \<Rightarrow> [])
                 (sort_key latency [0 ..< length files]))"
proof -
  have eq: "map (\<lambda>i. case map (\<lambda>f. fst (uploadDocument env fetch f [])) files ! i of
                    Inr resp \<Rightarrow> [newSource (rids i) (dates i) (files ! i) resp]
                  | Inl err \<Rightarrow> [])
          (sort_key latency [0 ..< length files]) =
        map (\<lambda>i. case fst (uploadDocument env fetch (files ! i) []) of
                    Inr resp \<Rightarrow> [newSource (rids i) (dates i) (files ! i) resp]
                  | Inl err \<Rightarrow> [])
          (sort_key latency [0 ..< length files])"
    by (rule settle_all_under_order) simp
  show ?thesis
    by (simp add: handleFileUpload_def submit_all_eq Let_def settle_all_def
        settle_fold_sources eq)
qed

lemma handleFileUpload_console:
  "console (handleFileUpload env fetch rids dates latency (Some files) s) =
     console s @
     concat (map (\<lambda>i. case fst (uploadDocument env fetch (files ! i) []) of
                          Inr resp \<Rightarrow> []
                        | Inl err \<Rightarrow> [(''Failed to upload '' @ file_name (files ! i) @ '':'', err)])
                 (sort_key latency [0 ..< length files]))"
proof -
  have eq: "map (\<lambda>i. case map (\<lambda>f. fst (uploadDocument env fetch f [])) files ! i of
                    Inr resp \<Rightarrow> []
                  | Inl err \<Rightarrow> [(''Failed to upload '' @ file_name (files ! i) @ '':'', err)])
          (sort_key latency [0 ..< length files]) =
        map (\<lambda>i. case fst (uploadDocument env fetch (files ! i) []) of
                    Inr resp \<Rightarrow> []
                  | Inl err \<Rightarrow> [(''Failed to upload '' @ file_name (files ! i) @ '':'', err)])
          (sort_key latency [0 ..< length files])"
    by (rule settle_all_under_order) simp
  show ?thesis
    by (simp add: handleFileUpload_def submit_all_eq Let_def settle_all_def
        settle_fold_console eq)
qed

lemma handleFileUpload_status:
  "uploadStatus (handleFileUpload env fetch rids dates latency (Some files) s) =
     Some (status_message
             (length (filter (\<lambda>f. \<not> isl (fst (uploadDocument env fetch f []))) files))
             (length (filter (\<lambda>f. isl (fst (uploadDocument env fetch f []))) files)))
   \<and> isUploading (handleFileUpload env fetch rids dates latency (Some files) s) = False"
  by (simp add: handleFileUpload_def submit_all_eq Let_def zip_with_image upload_outcome_eq
      filter_map comp_def)

text \<open>
  C3. When a batch of files is uploaded, a failure on one file does not abort the
  others, and the outcome is told per file. One upload request is sent for every file
  of the batch, in batch order, whatever the outcomes. As the uploads settle, every
  file whose upload succeeded is added to the list of sources under its own name, and
  every file whose upload failed is reported on the console by its name with its
  error; the status shown afterwards gives the number of files uploaded and the number
  of files that failed.
\<close>

theorem batch_upload_submits_and_reports_every_file:
  fixes env fetch rids dates latency files s
  defines "after \<equiv> handleFileUpload env fetch rids dates latency (Some files) s"
    and "outcome \<equiv> \<lambda>file. fst (uploadDocument env fetch file [])"
    and "source_of \<equiv> \<lambda>i resp.
           \<lparr>src_id = rids i, src_name = file_name (files ! i),
            src_content = (case filename resp of
                             None \<Rightarrow> file_name (files ! i)
                           | Some f \<Rightarrow> if f = [] then file_name (files ! i) else f),
            src_type = (if file_type (files ! i) = [] then ''application/octet-stream''
                        else file_type (files ! i)),
            src_size = file_size (files ! i), src_uploadDate = dates i\<rparr>"
    and "report_of \<equiv> \<lambda>i err. (''Failed to upload '' @ file_name (files ! i) @ '':'', err)"
    and "uploaded \<equiv> length (filter (\<lambda>file. \<not> isl (fst (uploadDocument env fetch file []))) files)"
    and "failed \<equiv> length (filter (\<lambda>file. isl (fst (uploadDocument env fetch file []))) files)"
  shows "requests after = requests s @ map (upload_request env) files
     \<and> sources after =
         sources s @
         concat (map (\<lambda>i. case outcome (files ! i) of
                              Inr resp \<Rightarrow> [source_of i resp] | Inl err \<Rightarrow> [])
                     (sort_key latency [0 ..< length files]))
     \<and> console after =
         console s @
         concat (map (\<lambda>i. case outcome (files ! i) of
                              Inr resp \<Rightarrow> [] | Inl err \<Rightarrow> [report_of i err])
                     (sort_key latency [0 ..< length files]))
     \<and> (\<forall>i < length files.
           case outcome (files ! i) of
             Inr resp \<Rightarrow> source_of i resp \<in> set (sources after)
           | Inl err \<Rightarrow> report_of i err \<in> set (console after))
     \<and> uploadStatus after =
         Some (if uploaded > 0 then
                 (StatusSuccess,
                  ''Successfully uploaded '' @ toString uploaded @ '' file'' @
                  (if uploaded > 1 then ''s'' else []) @
                  (if failed > 0 then '', '' @ toString failed @ '' failed'' else []))
               else
                 (StatusError,
                  ''Failed to upload '' @ toString failed @ '' file'' @
                  (if failed > 1 then ''s'' else [])))
     \<and> isUploading after = False"
proof -
  have req: "requests after = requests s @ map (upload_request env) files"
    unfolding after_def by (rule handleFileUpload_requests)
  have src: "sources after =
         sources s @
         concat (map (\<lambda>i. case outcome (files ! i) of
                              Inr resp \<Rightarrow> [source_of i resp] | Inl err \<Rightarrow> [])
                     (sort_key latency [0 ..< length files]))"
    unfolding after_def outcome_def source_of_def handleFileUpload_sources newSource_def ..
  have con: "console after =
         console s @
         concat (map (\<lambda>i. case outcome (files ! i) of
                              Inr resp \<Rightarrow> [] | Inl err \<Rightarrow> [report_of i err])
                     (sort_key latency [0 ..< length files]))"
    unfolding after_def outcome_def report_of_def handleFileUpload_console ..
  have each: "\<forall>i < length files.
           case outcome (files ! i) of
             Inr resp \<Rightarrow> source_of i resp \<in> set (sources after)
           | Inl err \<Rightarrow> report_of i err \<in> set (console after)"
  proof (intro allI impI)
    fix i assume "i < length files"
    then have i: "i \<in> set (sort_key latency [0 ..< length files])" by simp
    show "case outcome (files ! i) of
             Inr resp \<Rightarrow> source_of i resp \<in> set (sources after)
           | Inl err \<Rightarrow> report_of i err \<in> set (console after)"
    proof (cases "outcome (files ! i)")
      case (Inl err)
      then show ?thesis using i by (auto simp: con intro!: bexI [of _ i])
    next
      case (Inr resp)
      then show ?thesis using i by (auto simp: src intro!: bexI [of _ i])
    qed
  qed
  have st: "uploadStatus after =
         Some (if uploaded > 0 then
                 (StatusSuccess,
                  ''Successfully uploaded '' @ toString uploaded @ '' file'' @
                  (if uploaded > 1 then ''s'' else []) @
                  (if failed > 0 then '', '' @ toString failed @ '' failed'' else []))
               else
                 (StatusError,
                  ''Failed to upload '' @ toString failed @ '' file'' @
                  (if failed > 1 then ''s'' else [])))"
      "isUploading after = False"
    unfolding after_def uploaded_def failed_def
    using handleFileUpload_status [of env fetch rids dates latency files s]
    by (simp_all add: status_message_def)
  show ?thesis using req src con each st by blast
qed

theorem batch_upload_submits_and_reports_every_file_witness:
  "requests (handleFileUpload None upload_fetch_example example_rids example_clock
               example_latency (Some example_files) example_state) =
     [upload_request None (example_files ! 0), upload_request None (example_files ! 1),
      upload_request None (example_files ! 2)]
   \<and> sources (handleFileUpload None upload_fetch_example example_rids example_clock
                 example_latency (Some example_files) example_state) =
       sources example_state @
       [\<lparr>src_id = ''k3j9x2'', src_name = ''paper.pdf'', src_content = ''document.pdf'',
         src_type = ''application/octet-stream'', src_size = 4096, src_uploadDate = 1010\<rparr>,
        \<lparr>src_id = ''k3j9x0'', src_name = ''notes.txt'', src_content = ''document.pdf'',
         src_type = ''text/plain'', src_size = 120, src_uploadDate = 1000\<rparr>]
   \<and> console (handleFileUpload None upload_fetch_example example_rids example_clock
                 example_latency (Some example_files) example_state) =
       [(''Failed to upload broken.pdf:'', Error ''Upload API error: Unprocessable Entity'')]
   \<and> uploadStatus (handleFileUpload None upload_fetch_example example_rids example_clock
                      example_latency (Some example_files) example_state) =
       Some (StatusSuccess, ''Successfully uploaded 2 files, 1 failed'')"
proof -
  have order: "sort_key example_latency [0 ..< length example_files] = [2, 1, 0]"
    by code_simp
  have out: "fst (uploadDocument None upload_fetch_example (example_files ! 0) []) =
               Inr example_upload_response"
      "fst (uploadDocument None upload_fetch_example (example_files ! Suc 0) []) =
               Inl (Error ''Upload API error: Unprocessable Entity'')"
      "fst (uploadDocument None upload_fetch_example (example_files ! 2) []) =
               Inr example_upload_response"
    by (simp_all add: uploadDocument_eq upload_fetch_example_def upload_request_def
        example_files_def)
  have files: "example_files ! 0 =
        \<lparr>file_name = ''notes.txt'', file_type = ''text/plain'', file_size = 120\<rparr>"
      "example_files ! Suc 0 =
        \<lparr>file_name = ''broken.pdf'', file_type = ''application/pdf'', file_size = 7\<rparr>"
      "example_files ! 2 = \<lparr>file_name = ''paper.pdf'', file_type = [], file_size = 4096\<rparr>"
    by (simp_all add: example_files_def)
  have counts:
      "length (filter (\<lambda>file. \<not> isl (fst (uploadDocument None upload_fetch_example file [])))
                 example_files) = 2"
      "length (filter (\<lambda>file. isl (fst (uploadDocument None upload_fetch_example file [])))
                 example_files) = 1"
    by (simp_all add: uploadDocument_eq upload_fetch_example_def upload_request_def
        example_files_def)
  have env: "example_rids 0 = ''k3j9x0''" "example_rids 2 = ''k3j9x2''"
      "example_clock 0 = 1000" "example_clock 2 = 1010"
      "filename example_upload_response = Some ''document.pdf''"
      "console example_state = []" "requests example_state = []"
      "toString 2 = ''2''" "toString (Suc 0) = ''1''"
      "map (upload_request None) example_files =
         [upload_request None (example_files ! 0), upload_request None (example_files ! 1),
          upload_request None (example_files ! 2)]"
    by (simp_all add: example_rids_def example_clock_def example_upload_response_def
        example_state_def toString.simps digit_def example_files_def)
  show ?thesis
    using batch_upload_submits_and_reports_every_file
        [of None upload_fetch_example example_rids example_clock example_latency
            example_files example_state]
    by (simp add: order out counts env) (simp add: files)
qed

section \<open>Facts about \<open>handleReset\<close> and \<open>handleRemoveSource\<close>\<close>

lemma handleReset_state:
  "snd (handleReset env fetch True s) =
     s\<lparr>requests := requests s @ [reset_request env], messages := [], sources := [],
       localStorage := (localStorage s)(STORAGE_KEY_MESSAGES := None,
                                        STORAGE_KEY_SOURCES := None)\<rparr>"
  by (simp add: handleReset_def resetSources_eq Let_def split: sum.splits)

lemma handleReset_error:
  "fst (handleReset env fetch True s) =
     (case fst (resetSources env fetch (requests s)) of Inl e \<Rightarrow> Some e | Inr u \<Rightarrow> None)"
  by (simp add: handleReset_def resetSources_eq Let_def split: sum.splits)

lemma handleReset_declined: "handleReset env fetch False s = (None, s)"
  by (simp add: handleReset_def)

lemma handleSendMessage_requests_cases:
  "requests (handleSendMessage env fetch now s) =
     requests s @ (if trim (inputValue s) = [] then [] else [chat_request env (chatRequest s)])"
  by (simp add: handleSendMessage_blank handleSendMessage_requests)

lemma handleFileUpload_requests_cases:
  "requests (handleFileUpload env fetch rids dates latency files_opt s) =
     requests s @ (case files_opt of None \<Rightarrow> [] | Some files \<Rightarrow> map (upload_request env) files)"
  by (cases files_opt) (simp_all add: handleFileUpload_null handleFileUpload_requests)

text \<open>
  The keys that the handler removes are written again by the persistence effects of
  the next render, with the empty lists.
\<close>

lemma reset_then_persist:
  "localStorage (persist_sources (persist_messages (snd (handleReset env fetch True s)))) =
     (localStorage s)(STORAGE_KEY_MESSAGES \<mapsto> StoredMessages [],
                      STORAGE_KEY_SOURCES \<mapsto> StoredSources [])"
  by (simp add: handleReset_state persist_messages_def persist_sources_def
      STORAGE_KEY_MESSAGES_def STORAGE_KEY_SOURCES_def fun_upd_twist)

text \<open>
  C10. Once the user has confirmed the reset, the handler always clears the local
  state: it ends with no messages and no sources and with both keys removed from
  \<open>localStorage\<close>, whatever the backend answers. When the backend call raises an error,
  the clearing has run all the same and the error leaves the handler afterwards.
\<close>

theorem reset_always_clears_local_state:
  "messages (snd (handleReset env fetch True s)) = []
   \<and> sources (snd (handleReset env fetch True s)) = []
   \<and> localStorage (snd (handleReset env fetch True s)) STORAGE_KEY_MESSAGES = None
   \<and> localStorage (snd (handleReset env fetch True s)) STORAGE_KEY_SOURCES = None
   \<and> fst (handleReset env fetch True s) =
       (case fst (resetSources env fetch (requests s)) of Inl e \<Rightarrow> Some e | Inr u \<Rightarrow> None)"
  by (simp add: handleReset_state handleReset_error)

theorem reset_always_clears_local_state_witness:
  "fst (resetSources None reset_fetch_500 (requests example_state)) =
     Inl (Error ''Reset API error: Internal Server Error'')
   \<and> fst (handleReset None reset_fetch_500 True example_state) =
       Some (Error ''Reset API error: Internal Server Error'')
   \<and> messages example_state \<noteq> [] \<and> sources example_state \<noteq> []
   \<and> localStorage example_state STORAGE_KEY_MESSAGES \<noteq> None
   \<and> localStorage example_state STORAGE_KEY_SOURCES \<noteq> None
   \<and> messages (snd (handleReset None reset_fetch_500 True example_state)) = []
   \<and> sources (snd (handleReset None reset_fetch_500 True example_state)) = []
   \<and> localStorage (snd (handleReset None reset_fetch_500 True example_state))
       STORAGE_KEY_MESSAGES = None
   \<and> localStorage (snd (handleReset None reset_fetch_500 True example_state))
       STORAGE_KEY_SOURCES = None"
proof -
  have e: "fst (resetSources None reset_fetch_500 (requests example_state)) =
     Inl (Error ''Reset API error: Internal Server Error'')"
    by (simp add: resetSources_eq reset_fetch_500_def)
  have b: "messages example_state \<noteq> []" "sources example_state \<noteq> []"
      "localStorage example_state STORAGE_KEY_MESSAGES \<noteq> None"
      "localStorage example_state STORAGE_KEY_SOURCES \<noteq> None"
    by (simp_all add: example_state_def STORAGE_KEY_MESSAGES_def STORAGE_KEY_SOURCES_def)
  show ?thesis
    using reset_always_clears_local_state [of None reset_fetch_500 example_state] e b
    by simp
qed

text \<open>
  C6, as stated: the Reset operation clears the collection and returns the count of
  records cleared. The client's call returns nothing: against a backend that reports
  three cleared records and against one that reports five, its result is the same
  empty value.
\<close>

theorem reset_result_drops_record_count:
  "json_result (reset_fetch_3 (reset_request None)) =
     Inr (JObject [(''records_cleared'', JNumber 3)])
   \<and> json_result (reset_fetch_5 (reset_request None)) =
       Inr (JObject [(''records_cleared'', JNumber 5)])
   \<and> fst (resetSources None reset_fetch_3 []) = Inr ()
   \<and> fst (resetSources None reset_fetch_5 []) = Inr ()"
  by (simp add: resetSources_eq reset_fetch_3_def reset_fetch_5_def)

text \<open>
  C6, amended. The Reset operation sends one request, \<open>DELETE /reset\<close>, for the whole
  collection (no document id, no body) and returns no value: it completes with nothing
  on an ok response and raises an error otherwise. No count of records cleared is
  returned.
\<close>

theorem reset_sends_delete_and_returns_nothing:
  "snd (resetSources env fetch log) =
     log @ [\<lparr>url = BASE_URL env @ ''/reset'', req_method = DELETE, headers = [],
             body = NoBody\<rparr>]
   \<and> fst (resetSources env fetch log) =
       (case fetch (reset_request env) of
          Rejected e \<Rightarrow> Inl e
        | Response ok' st js \<Rightarrow>
            if ok' then Inr () else Inl (Error (''Reset API error: '' @ st)))"
  by (simp add: resetSources_eq reset_request_def)

text \<open>
  C7. Nothing but the full reset deletes documents from the retrieval core. Removing a
  single source by its id sends no request to the backend and changes only the local
  list of sources, from which it drops the entries with that id; the requests that
  sending a message or uploading files add are POST requests; the only DELETE request
  is the one of the full reset.
\<close>

theorem only_reset_issues_delete:
  "handleRemoveSource id' s = s\<lparr>sources := filter (\<lambda>x. src_id x \<noteq> id') (sources s)\<rparr>
   \<and> requests (handleRemoveSource id' s) = requests s
   \<and> messages (handleRemoveSource id' s) = messages s
   \<and> localStorage (handleRemoveSource id' s) = localStorage s
   \<and> (\<exists>new. requests (handleSendMessage env fetch now s) = requests s @ new
          \<and> (\<forall>r \<in> set new. req_method r = POST))
   \<and> (\<exists>new. requests (handleFileUpload env fetch' rids dates latency files_opt s) =
            requests s @ new
          \<and> (\<forall>r \<in> set new. req_method r = POST))
   \<and> requests (snd (handleReset env fetch'' True s)) = requests s @ [reset_request env]
   \<and> req_method (reset_request env) = DELETE"
proof -
  have send: "\<exists>new. requests (handleSendMessage env fetch now s) = requests s @ new
          \<and> (\<forall>r \<in> set new. req_method r = POST)"
    by (simp add: handleSendMessage_requests_cases chat_request_def)
  have upload: "\<exists>new. requests (handleFileUpload env fetch' rids dates latency files_opt s) =
            requests s @ new
          \<and> (\<forall>r \<in> set new. req_method r = POST)"
    by (auto simp: handleFileUpload_requests_cases upload_request_def split: option.splits)
  have remove: "handleRemoveSource id' s = s\<lparr>sources := filter (\<lambda>x. src_id x \<noteq> id') (sources s)\<rparr>"
      "requests (handleRemoveSource id' s) = requests s"
      "messages (handleRemoveSource id' s) = messages s"
      "localStorage (handleRemoveSource id' s) = localStorage s"
    by (simp_all add: handleRemoveSource_def)
  have reset: "requests (snd (handleReset env fetch'' True s)) = requests s @ [reset_request env]"
      "req_method (reset_request env) = DELETE"
    by (simp_all add: handleReset_state reset_request_def)
  show ?thesis using send upload remove reset by blast
qed

theorem only_reset_issues_delete_witness:
  "sources (handleRemoveSource ''a1'' example_state) =
     [\<lparr>src_id = ''b2'', src_name = ''two.txt'', src_content = ''two.txt'',
       src_type = ''text/plain'', src_size = 20, src_uploadDate = 4\<rparr>]
   \<and> requests (handleRemoveSource ''a1'' example_state) = []
   \<and> list_all (\<lambda>r. req_method r = POST)
       (requests (handleSendMessage None chat_fetch_ok example_clock example_state))
   \<and> list_all (\<lambda>r. req_method r = POST)
       (requests (handleFileUpload None upload_fetch_example example_rids example_clock
                    example_clock (Some example_files) example_state))
   \<and> requests (snd (handleReset None reset_fetch_3 True example_state)) =
       [reset_request None]
   \<and> req_method (reset_request None) = DELETE"
proof -
  have r: "requests example_state = []" by (simp add: example_state_def)
  have f: "sources (example_state\<lparr>sources := filter (\<lambda>x. src_id x \<noteq> ''a1'')
                                              (sources example_state)\<rparr>) =
     [\<lparr>src_id = ''b2'', src_name = ''two.txt'', src_content = ''two.txt'',
       src_type = ''text/plain'', src_size = 20, src_uploadDate = 4\<rparr>]"
    by (simp add: example_state_def)
  show ?thesis
    using only_reset_issues_delete
        [where id' = "''a1''" and s = example_state and env = None and fetch = chat_fetch_ok
           and now = example_clock and fetch' = upload_fetch_example and rids = example_rids
           and dates = example_clock and latency = example_clock
           and files_opt = "Some example_files" and fetch'' = reset_fetch_3]
      f
    by (auto simp: r list_all_iff)
qed


section \<open>The Chunker covers the document\<close>

lemma chunks_from_step:
  assumes "rest \<noteq> []" "\<not> length rest \<le> size'"
    and "c = max (overlap + 1) (min size' (pref (take size' rest)))"
    and "shared = (if length rest - (c - overlap) \<le> size' then 0 else overlap)"
  shows "chunks_from size' overlap pref did k start rest =
           \<lparr>chunk_document = did, chunk_index = k, chunk_text = take c rest,
             chunk_start = start, chunk_end = start + length (take c rest)\<rparr> #
           chunks_from size' overlap pref did (k + 1) (start + c - shared)
             (drop (c - shared) rest)"
  by (subst chunks_from.simps) (simp only: assms Let_def if_False)

lemma chunks_from_cut:
  assumes "overlap < size'" "\<not> length rest \<le> size'"
    and "c = max (overlap + 1) (min size' (pref (take size' rest)))"
  shows "overlap < c" "c \<le> size'" "c < length rest" "length (take c rest) = c"
proof -
  show 1: "overlap < c" using assms by simp
  show 2: "c \<le> size'" using assms by simp
  show 3: "c < length rest" using 2 assms(2) by simp
  show "length (take c rest) = c" using 3 by simp
qed

lemma reassemble_chunks_from:
  assumes "overlap < size'" "covered \<le> start + overlap"
  shows "reassemble_from covered (chunks_from size' overlap pref did k start rest) =
           drop (covered - start) rest"
  using assms
proof (induction size' overlap pref did k start rest arbitrary: covered rule: chunks_from.induct)
  case (1 size' overlap pref did k start rest)
  show ?case
  proof (cases "rest = [] \<or> length rest \<le> size'")
    case True
    then show ?thesis
      by (auto simp: chunks_from.simps [of size' overlap pref did k start rest])
  next
    case False
    define c where "c = max (overlap + 1) (min size' (pref (take size' rest)))"
    define shared where "shared = (if length rest - (c - overlap) \<le> size' then 0 else overlap)"
    from False have ne: "rest \<noteq> []" and long: "\<not> length rest \<le> size'" by simp_all
    note c = chunks_from_cut [where pref = pref, OF "1.prems"(1) long c_def]
    have sh: "shared \<le> overlap" by (simp add: shared_def)
    note unfold = chunks_from_step [where pref = pref and did = did and k = k and start = start,
        OF ne long c_def shared_def]
    have "covered \<le> start + c - shared + overlap \<Longrightarrow>
          reassemble_from covered
            (chunks_from size' overlap pref did (k + 1) (start + c - shared)
               (drop (c - shared) rest)) =
          drop (covered - (start + c - shared)) (drop (c - shared) rest)" for covered
      using "1.IH" [OF ne long c_def shared_def "1.prems"(1)] .
    from this [of "start + c"]
    have IH: "reassemble_from (start + c)
                (chunks_from size' overlap pref did (k + 1) (start + c - shared)
                   (drop (c - shared) rest)) =
              drop (start + c - (start + c - shared)) (drop (c - shared) rest)"
      using sh c(1) by simp
    have "drop (start + c - (start + c - shared)) (drop (c - shared) rest) = drop c rest"
      using sh c(1) by simp
    moreover have "drop (covered - start) (take c rest) @ drop c rest = drop (covered - start) rest"
    proof -
      have le: "covered - start \<le> length (take c rest)"
        using "1.prems"(2) c(1) c(4) by simp
      have "drop (covered - start) rest = drop (covered - start) (take c rest @ drop c rest)"
        by simp
      also have "\<dots> = drop (covered - start) (take c rest) @
                      drop (covered - start - length (take c rest)) (drop c rest)"
        by (simp only: drop_append)
      also have "covered - start - length (take c rest) = 0"
        using le by (simp only: diff_is_0_eq)
      also have "drop 0 (drop c rest) = drop c rest"
        by simp
      finally show ?thesis by simp
    qed
    ultimately show ?thesis using IH c(3) by (simp add: unfold min_def)
  qed
qed

lemma chunker_empty: "chunker size' overlap pref did [] = []"
  by (simp add: chunker_def chunks_from.simps)

lemma chunker_short:
  "doc \<noteq> [] \<Longrightarrow> length doc \<le> size' \<Longrightarrow>
   chunker size' overlap pref did doc =
     [\<lparr>chunk_document = did, chunk_index = 0, chunk_text = doc,
       chunk_start = 0, chunk_end = length doc\<rparr>]"
  by (simp add: chunker_def chunks_from.simps)

text \<open>
  Every chunk is the slice of the document that its offset range names, is not empty
  and is at most \<open>size'\<close> characters long.
\<close>

lemma chunks_from_slices:
  assumes "overlap < size'" "rest = drop start doc"
    and "ch \<in> set (chunks_from size' overlap pref did k start rest)"
  shows "chunk_text ch = take (chunk_end ch - chunk_start ch) (drop (chunk_start ch) doc)
     \<and> chunk_start ch < chunk_end ch \<and> chunk_end ch \<le> length doc
     \<and> length (chunk_text ch) \<le> size'"
  using assms
proof (induction size' overlap pref did k start rest rule: chunks_from.induct)
  case (1 size' overlap pref did k start rest)
  show ?case
  proof (cases "rest = [] \<or> length rest \<le> size'")
    case True
    then have "chunks_from size' overlap pref did k start rest =
        (if rest = [] then []
         else [\<lparr>chunk_document = did, chunk_index = k, chunk_text = rest,
                 chunk_start = start, chunk_end = start + length rest\<rparr>])"
      by (auto simp: chunks_from.simps [of size' overlap pref did k start rest])
    with "1.prems"(3) have ch: "rest \<noteq> []"
        "ch = \<lparr>chunk_document = did, chunk_index = k, chunk_text = rest,
               chunk_start = start, chunk_end = start + length rest\<rparr>"
      by (auto split: if_splits)
    from ch(1) True have "length rest \<le> size'" "0 < length rest" by auto
    then show ?thesis using ch(2) "1.prems"(2) by simp
  next
    case False
    define c where "c = max (overlap + 1) (min size' (pref (take size' rest)))"
    define shared where "shared = (if length rest - (c - overlap) \<le> size' then 0 else overlap)"
    from False have ne: "rest \<noteq> []" and long: "\<not> length rest \<le> size'" by simp_all
    note c = chunks_from_cut [where pref = pref, OF "1.prems"(1) long c_def]
    have sh: "shared \<le> overlap" by (simp add: shared_def)
    note unfold = chunks_from_step [where pref = pref and did = did and k = k and start = start,
        OF ne long c_def shared_def]
    have len: "length rest = length doc - start" using "1.prems"(2) by simp
    from "1.prems"(3) unfold
    consider "ch = \<lparr>chunk_document = did, chunk_index = k, chunk_text = take c rest,
                     chunk_start = start, chunk_end = start + length (take c rest)\<rparr>"
      | "ch \<in> set (chunks_from size' overlap pref did (k + 1) (start + c - shared)
                     (drop (c - shared) rest))"
      by auto
    then show ?thesis
    proof cases
      case 1
      then show ?thesis using c len "1.prems"(2) by simp
    next
      case 2
      have "drop (c - shared) rest = drop (start + c - shared) doc"
        using "1.prems"(2) sh c(1) by (simp add: add.commute)
      from "1.IH" [OF ne long c_def shared_def "1.prems"(1) this 2]
      show ?thesis .
    qed
  qed
qed

lemma chunker_slices:
  assumes "overlap < size'" "ch \<in> set (chunker size' overlap pref did doc)"
  shows "chunk_text ch = take (chunk_end ch - chunk_start ch) (drop (chunk_start ch) doc)
     \<and> chunk_start ch < chunk_end ch \<and> chunk_end ch \<le> length doc
     \<and> length (chunk_text ch) \<le> size'"
proof -
  have d: "doc = drop 0 doc" by simp
  have m: "ch \<in> set (chunks_from size' overlap pref did 0 0 doc)"
    using assms(2) by (simp add: chunker_def)
  show ?thesis by (rule chunks_from_slices [OF assms(1) d m])
qed

text \<open>
  The overlap invariant: consecutive chunks share exactly \<open>overlap\<close> characters, and
  the chunk that ends the document starts where its predecessor ended.
\<close>

lemma chunks_from_single:
  assumes "rest \<noteq> []" "length rest \<le> size'"
  shows "chunks_from size' overlap pref did k start rest =
           [\<lparr>chunk_document = did, chunk_index = k, chunk_text = rest,
             chunk_start = start, chunk_end = start + length rest\<rparr>]"
  using assms by (simp add: chunks_from.simps [of size' overlap pref did k start rest])

lemma chunks_from_first:
  assumes "overlap < size'" "rest \<noteq> []"
  shows "\<exists>ch cs. chunks_from size' overlap pref did k start rest = ch # cs
                \<and> chunk_start ch = start"
proof (cases "length rest \<le> size'")
  case True
  then show ?thesis using chunks_from_single [OF assms(2) True] by simp
next
  case False
  define c where "c = max (overlap + 1) (min size' (pref (take size' rest)))"
  define shared where "shared = (if length rest - (c - overlap) \<le> size' then 0 else overlap)"
  note unfold = chunks_from_step [where pref = pref and did = did and k = k and start = start,
      OF assms(2) False c_def shared_def]
  show ?thesis by (simp add: unfold)
qed

lemma chunks_from_overlaps:
  assumes "overlap < size'"
  shows "overlaps_ok overlap (chunks_from size' overlap pref did k start rest)"
  using assms
proof (induction size' overlap pref did k start rest rule: chunks_from.induct)
  case (1 size' overlap pref did k start rest)
  show ?case
  proof (cases "rest = [] \<or> length rest \<le> size'")
    case True
    then show ?thesis
      by (auto simp: chunks_from.simps [of size' overlap pref did k start rest])
  next
    case False
    define c where "c = max (overlap + 1) (min size' (pref (take size' rest)))"
    define shared where "shared = (if length rest - (c - overlap) \<le> size' then 0 else overlap)"
    from False have ne: "rest \<noteq> []" and long: "\<not> length rest \<le> size'" by simp_all
    note c = chunks_from_cut [where pref = pref, OF "1.prems" long c_def]
    note unfold = chunks_from_step [where pref = pref and did = did and k = k and start = start,
        OF ne long c_def shared_def]
    note IH = "1.IH" [OF ne long c_def shared_def "1.prems"]
    show ?thesis
    proof (cases "length rest - (c - overlap) \<le> size'")
      case True
      then have sh: "shared = 0" by (simp add: shared_def)
      have "drop c rest \<noteq> []" "length (drop c rest) \<le> size'"
        using c(3) True by simp_all
      from chunks_from_single [OF this]
      show ?thesis using c(3) by (simp add: unfold sh)
    next
      case False
      then have sh: "shared = overlap" by (simp add: shared_def)
      have far: "\<not> length (drop (c - overlap) rest) \<le> size'" using False by simp
      then have ne': "drop (c - overlap) rest \<noteq> []" by auto
      define c' where
        "c' = max (overlap + 1) (min size' (pref (take size' (drop (c - overlap) rest))))"
      define shared' where
        "shared' = (if length (drop (c - overlap) rest) - (c' - overlap) \<le> size'
                    then 0 else overlap)"
      note c' = chunks_from_cut [where pref = pref, OF "1.prems" far c'_def]
      note unfold' = chunks_from_step
        [where pref = pref and did = did and k = "k + 1" and start = "start + c - overlap",
         OF ne' far c'_def shared'_def]
      have "drop (c' - shared') (drop (c - overlap) rest) \<noteq> []"
        using c'(3) by simp
      from chunks_from_first [OF "1.prems" this]
      obtain e cs where tail:
        "chunks_from size' overlap pref did (k + 1 + 1) (start + c - overlap + c' - shared')
           (drop (c' - shared') (drop (c - overlap) rest)) = e # cs"
        by blast
      define d where
        "d = \<lparr>chunk_document = did, chunk_index = k + 1,
               chunk_text = take c' (drop (c - overlap) rest),
               chunk_start = start + c - overlap,
               chunk_end = start + c - overlap + length (take c' (drop (c - overlap) rest))\<rparr>"
      have eq: "chunks_from size' overlap pref did (k + 1) (start + c - overlap)
                  (drop (c - overlap) rest) = d # e # cs"
        using unfold' tail by (simp add: d_def)
      have ih: "overlaps_ok overlap (d # e # cs)"
        using IH eq by (simp add: sh)
      have sd: "chunk_start d = start + c - overlap" by (simp add: d_def)
      show ?thesis
        using unfold eq ih sd c(1) c(3) by (simp add: sh)
    qed
  qed
qed

lemma chunker_overlaps:
  "overlap < size' \<Longrightarrow> overlaps_ok overlap (chunker size' overlap pref did doc)"
  by (simp add: chunker_def chunks_from_overlaps)

text \<open>
  The scenario of the 1200-character document, cut with the default size and overlap:
  three chunks of 500, 500 and 300 characters.
\<close>

lemma chunker_1200:
  "map (\<lambda>c. (chunk_start c, chunk_end c, length (chunk_text c)))
     (chunker default_chunk_size default_chunk_overlap hard_cut ''doc-1''
        (replicate 1200 (CHR ''a''))) =
   [(0, 500, 500), (400, 900, 500), (900, 1200, 300)]"
  by (simp add: chunker_def chunks_from.simps hard_cut_def default_chunk_size_def
      default_chunk_overlap_def Let_def)



text \<open>
  C8. For every document, the chunks that the Chunker yields cover the whole text with
  no gaps: concatenating the chunk texts with the overlaps removed, each overlap read
  from the offset ranges of the chunks, gives back the text of the document exactly.
  This holds for every chunk size, every smaller overlap and every boundary preference.
\<close>

theorem chunker_roundtrip:
  assumes "overlap < size'"
  shows "reassemble (chunker size' overlap pref did doc) = doc"
  using reassemble_chunks_from [OF assms, of 0 0 pref did 0 doc]
  by (simp add: reassemble_def chunker_def)

theorem chunker_roundtrip_witness:
  "(2::nat) < 5
   \<and> map (\<lambda>c. (chunk_start c, chunk_end c, chunk_text c))
       (chunker 5 2 hard_cut ''doc-1'' ''hello world'') =
       [(0, 5, ''hello''), (3, 8, ''lo wo''), (8, 11, ''rld'')]
   \<and> reassemble (chunker 5 2 hard_cut ''doc-1'' ''hello world'') = ''hello world''"
proof -
  have h: "(2::nat) < 5" by simp
  have "map (\<lambda>c. (chunk_start c, chunk_end c, chunk_text c))
       (chunker 5 2 hard_cut ''doc-1'' ''hello world'') =
       [(0, 5, ''hello''), (3, 8, ''lo wo''), (8, 11, ''rld'')]"
    by (simp add: chunker_def chunks_from.simps hard_cut_def Let_def)
  then show ?thesis
    using chunker_roundtrip [OF h, of hard_cut "''doc-1''" "''hello world''"] by simp
qed

end
